theory Spec2Isabelle
  imports Complex_Main "HOL-Library.AList"
begin

section \<open>Exceptions\<close>

text \<open>
  The exceptions that the embedded parts of \<^verbatim>\<open>Stoner/Core.py\<close> and
  \<^verbatim>\<open>Stoner/Image/stack.py\<close> raise or let through.  A raise is the \<open>Inl\<close>
  branch of a sum.  \<open>OtherError\<close> stands for any exception class that the code
  neither raises itself nor names in an \<^verbatim>\<open>except\<close> clause.
\<close>

datatype exc =
    StonerLoadError
  | StonerUnrecognisedFormat "string list"
  | UnicodeDecodeError
  | IOError
  | SyntaxError
  | IndexError
  | KeyError
  | ValueError
  | TypeError
  | StopIteration
  | OtherError string

section \<open>Saving: normalising the extension (\<^verbatim>\<open>DataFile.save\<close>)\<close>

text \<open>
  \<^verbatim>\<open>str.rfind\<close>: the index of the last occurrence of a character, \<open>-1\<close> when
  there is none.  The scan runs left to right and remembers the last hit.
\<close>

fun rfind_from :: "char \<Rightarrow> string \<Rightarrow> nat \<Rightarrow> int \<Rightarrow> int" where
  "rfind_from c [] i acc = acc"
| "rfind_from c (x # xs) i acc = rfind_from c xs (Suc i) (if x = c then int i else acc)"

definition rfind :: "char \<Rightarrow> string \<Rightarrow> int" where
  "rfind c s = rfind_from c s 0 (- 1)"

text \<open>
  \<^verbatim>\<open>genericpath._splitext(p, sep, altsep, extsep)\<close>, which \<^verbatim>\<open>os.path.splitext\<close>
  calls.  The inner loop skips the leading dots of the last path component: the first
  character that is not a dot makes the split at \<open>dotIndex\<close>; when the loop runs out,
  the path has no extension.
\<close>

function skip_leading_dots :: "string \<Rightarrow> char \<Rightarrow> nat \<Rightarrow> nat \<Rightarrow> (string \<times> string) option" where
  "skip_leading_dots p extsep filenameIndex dotIndex =
     (if filenameIndex < dotIndex then
        (if take 1 (drop filenameIndex p) \<noteq> [extsep]
         then Some (take dotIndex p, drop dotIndex p)
         else skip_leading_dots p extsep (Suc filenameIndex) dotIndex)
      else None)"
  by pat_completeness auto
termination
  by (relation "measure (\<lambda>(p, e, f, d). d - f)") auto

definition splitext_generic :: "string \<Rightarrow> char \<Rightarrow> char option \<Rightarrow> char \<Rightarrow> string \<times> string" where
  "splitext_generic p sep altsep extsep =
     (let sepIndex0 = rfind sep p;
          sepIndex = (case altsep of None \<Rightarrow> sepIndex0
                      | Some a \<Rightarrow> max sepIndex0 (rfind a p));
          dotIndex = rfind extsep p
      in if dotIndex > sepIndex then
           (case skip_leading_dots p extsep (nat (sepIndex + 1)) (nat dotIndex) of
              Some r \<Rightarrow> r
            | None \<Rightarrow> (p, []))
         else (p, []))"

text \<open>\<^verbatim>\<open>posixpath.splitext\<close>: separator \<open>/\<close>, no alternative separator.\<close>

definition splitext :: "string \<Rightarrow> string \<times> string" where
  "splitext p = splitext_generic p (CHR ''/'') None (CHR ''.'')"

text \<open>The class attribute \<^verbatim>\<open>DataFile._patterns\<close>.\<close>

definition patterns_attr :: "string list" where
  "patterns_attr = [''*.txt'', ''*.tdi'']"

text \<open>
  The part of \<^verbatim>\<open>DataFile.save\<close> that fixes the name of the file written
  (\<^verbatim>\<open>as_loaded\<close> false, a file name given):
  \<^verbatim>\<open>
    filename, ext = os.path.splitext(filename)
    if f"*.{ext}" not in DataFile.patterns:
        ext = DataFile.patterns[0][2:]
    filename = f"{filename}.{ext}"
  \<close>
  The list \<^verbatim>\<open>DataFile.patterns\<close> is an argument; \<^verbatim>\<open>patterns[0]\<close> on an empty
  list raises.
\<close>

definition save_filename :: "string list \<Rightarrow> string \<Rightarrow> exc + string" where
  "save_filename patterns fname =
     (let (stem, ext) = splitext fname in
      if (''*.'' @ ext) \<notin> set patterns then
        (case patterns of
           [] \<Rightarrow> Inl IndexError
         | p0 # _ \<Rightarrow> Inr (stem @ ''.'' @ drop 2 p0))
      else Inr (stem @ ''.'' @ ext))"

section \<open>Loading: the header check of the fallback parser (\<^verbatim>\<open>DataFile._load\<close>)\<close>

text \<open>
  \<^verbatim>\<open>str.isspace\<close> on the code points below 256, which is what \<^verbatim>\<open>str.strip()\<close>
  removes at both ends: tab to carriage return, the four separators 28 to 31, the
  space, NEL (133) and the no-break space (160).  A \<open>char\<close> is read as the code point
  of that number.
\<close>

definition isspace :: "char \<Rightarrow> bool" where
  "isspace c = (let n = (of_char c :: nat) in
                 (9 \<le> n \<and> n \<le> 13) \<or> (28 \<le> n \<and> n \<le> 32) \<or> n = 133 \<or> n = 160)"

definition strip :: "string \<Rightarrow> string" where
  "strip s = rev (dropWhile isspace (rev (dropWhile isspace s)))"

text \<open>\<^verbatim>\<open>str.split(sep)\<close> for a one-character separator: always at least one field.\<close>

fun split_on :: "char \<Rightarrow> string \<Rightarrow> string list" where
  "split_on sep [] = [[]]"
| "split_on sep (c # cs) =
     (if c = sep then [] # split_on sep cs
      else (case split_on sep cs of
              [] \<Rightarrow> [[c]]
            | f # fs \<Rightarrow> (c # f) # fs))"

text \<open>
  Modelled from the spec: the dialect \<^verbatim>\<open>tab_delimited\<close> is defined in
  \<^verbatim>\<open>Stoner/core/utils.py\<close>, which is not among the sources.  Section 6: ``tab
  (\<^verbatim>\<open>\t\<close>) is the sole field delimiter''.  So one record of
  \<^verbatim>\<open>csv.reader(datafile, dialect=tab_delimited())\<close> is the line split at its tabs,
  with no quoting; the reader returns the empty list for an empty line.
\<close>

definition csv_row :: "string \<Rightarrow> string list" where
  "csv_row line = (if line = [] then [] else split_on (CHR 0x09) line)"

definition is_newline :: "char \<Rightarrow> bool" where
  "is_newline c = (c = CHR 0x0A \<or> c = CHR 0x0D)"

text \<open>
  \<^verbatim>\<open>next(reader)\<close> on a freshly opened file, the file given as its text: the first
  line without its line end, split into fields; \<^verbatim>\<open>StopIteration\<close> on an empty file.
\<close>

definition reader_next :: "string \<Rightarrow> exc + string list" where
  "reader_next txt =
     (if txt = [] then Inl StopIteration
      else Inr (csv_row (takeWhile (\<lambda>c. \<not> is_newline c) txt)))"

datatype tdi_fmt = Fmt_1_5 | Fmt_1_0

text \<open>
  The body of the \<^verbatim>\<open>try\<close> block of \<^verbatim>\<open>_load\<close>:
  \<^verbatim>\<open>
    row = next(reader)
    if row[0].strip() == "TDI Format 1.5": fmt = 1.5
    elif row[0].strip() == "TDI Format=Text 1.0": fmt = 1.0
    else: raise StonerLoadError("Not a TDI File")
  \<close>
  \<^verbatim>\<open>row[0]\<close> raises \<^verbatim>\<open>IndexError\<close> on an empty row.  The result carries the
  format and the row, which the code goes on to read the column headers from.
\<close>

definition header_try :: "string \<Rightarrow> exc + (tdi_fmt \<times> string list)" where
  "header_try txt =
     (case reader_next txt of
        Inl e \<Rightarrow> Inl e
      | Inr row \<Rightarrow>
          (case row of
             [] \<Rightarrow> Inl IndexError
           | r0 # _ \<Rightarrow>
               if strip r0 = ''TDI Format 1.5'' then Inr (Fmt_1_5, row)
               else if strip r0 = ''TDI Format=Text 1.0'' then Inr (Fmt_1_0, row)
               else Inl StonerLoadError))"

text \<open>
  The \<^verbatim>\<open>try\<close> with its handler \<^verbatim>\<open>except Exception: raise StonerLoadError(...)\<close>:
  whatever the body raises leaves as \<^verbatim>\<open>StonerLoadError\<close>.
\<close>

definition header_check :: "string \<Rightarrow> exc + (tdi_fmt \<times> string list)" where
  "header_check txt =
     (case header_try txt of
        Inl _ \<Rightarrow> Inl StonerLoadError
      | Inr r \<Rightarrow> Inr r)"

text \<open>
  What the specification speaks of: the first tab-separated field of the first line
  of the file (empty when the file or its first line is empty).
\<close>

definition first_field :: "string \<Rightarrow> string" where
  "first_field txt =
     takeWhile (\<lambda>c. c \<noteq> CHR 0x09) (takeWhile (\<lambda>c. \<not> is_newline c) txt)"

section \<open>The \<^verbatim>\<open>DataFile\<close> object\<close>

text \<open>
  A metadata value: a string, an integer, a boolean, a number, an array of
  numbers of one or two dimensions, or a list of numbers.
  The type \<open>'a\<close> is the type of the numbers in the data matrix; nothing below
  computes with them.
\<close>

datatype 'a mdvalue =
    MdString string
  | MdInt int
  | MdBool bool
  | MdNumber 'a
  | MdArray "'a list"
  | MdArray2 "'a list list"
  | MdList "'a list"

text \<open>
  An entry of the list \<^verbatim>\<open>_masks\<close>: the scalar \<^verbatim>\<open>False\<close> that \<^verbatim>\<open>__new__\<close> puts
  there, or a mask array that \<^verbatim>\<open>_push_mask\<close> saved.
\<close>

datatype maskval = MaskScalar bool | MaskArray "bool list list"

text \<open>
  The attributes of a \<^verbatim>\<open>DataFile\<close> that the embedded methods read or write.  The
  data matrix is a list of rows; \<open>mask\<close> is the mask of the masked array
  \<^verbatim>\<open>self.data\<close>, of the same shape; \<open>setas\<close> holds one role letter for each
  column (\<open>.\<close> for a column with no role); \<open>metadata\<close> is the ordered dictionary, as
  an association list in insertion order, which \<open>AList.update\<close> maintains the way a
  Python dictionary does (an existing key keeps its place, a new key goes to the end).
\<close>

record 'a datafile =
  data :: "'a list list"
  mask :: "bool list list"
  setas :: "char list"
  column_headers :: "string list"
  metadata :: "(string \<times> 'a mdvalue) list"
  filename :: "string option"
  masks :: "maskval list"

text \<open>
  The object that \<^verbatim>\<open>__new__\<close> makes and \<^verbatim>\<open>__init__\<close> has before it looks at its
  arguments: no data, \<^verbatim>\<open>_masks = [False]\<close>, \<^verbatim>\<open>_filename = None\<close>, empty metadata.
\<close>

definition blank_datafile :: "'a datafile" where
  "blank_datafile =
     \<lparr> data = [], mask = [], setas = [], column_headers = [], metadata = [],
       filename = None, masks = [MaskScalar False] \<rparr>"

text \<open>
  Modelled from the spec: \<^verbatim>\<open>DataFile.__setitem__\<close> is defined in
  \<^verbatim>\<open>Stoner/core/interfaces.py\<close>, which is not among the sources.  Section 4.1 has
  \<^verbatim>\<open>set(key, value)\<close> store the value under the key, overwriting, and section 4.5
  has the metadata key \<^verbatim>\<open>Loaded as\<close> record the handler: \<^verbatim>\<open>self[key] = value\<close> for a
  string key stores the value in the metadata.
\<close>

definition setitem_metadata :: "string \<Rightarrow> 'a mdvalue \<Rightarrow> 'a datafile \<Rightarrow> 'a datafile" where
  "setitem_metadata key v d = d\<lparr>metadata := AList.update key v (metadata d)\<rparr>"

text \<open>
  \<^verbatim>\<open>DataFile()\<close> without arguments: \<^verbatim>\<open>__init__\<close> calls no handler and sets the
  metadata key \<^verbatim>\<open>Stoner.class\<close> to the name of the class.
\<close>

definition new_datafile :: "string \<Rightarrow> 'a datafile" where
  "new_datafile clsname = setitem_metadata ''Stoner.class'' (MdString clsname) blank_datafile"

text \<open>The shape of the data: rows, and columns of the first row (0 without rows).\<close>

definition ncols :: "'a list list \<Rightarrow> nat" where
  "ncols m = (case m of [] \<Rightarrow> 0 | r # _ \<Rightarrow> length r)"


section \<open>Loading with auto-detection (\<^verbatim>\<open>DataFile.load\<close>)\<close>

text \<open>
  A format handler is a subclass of \<^verbatim>\<open>DataFile\<close>: its name, its class attribute
  \<^verbatim>\<open>mime_type\<close>, and what \<^verbatim>\<open>cls()._load(filename, ...)\<close> does for the file of a
  given name: raise, return \<^verbatim>\<open>None\<close>, or return the loaded object.
\<close>

record 'a handler =
  cls_name :: string
  cls_mime_type :: "string list"
  cls_load :: "string \<Rightarrow> exc + 'a datafile option"

text \<open>
  What \<^verbatim>\<open>load\<close> takes from its surroundings: \<^verbatim>\<open>os.path.exists\<close>, the optional
  module \<^verbatim>\<open>magic\<close> (\<open>None\<close> when the import failed, else the function from a file
  name to its mime type), and the registry \<^verbatim>\<open>subclasses(DataFile)\<close>, an ordered
  dictionary from class names to classes in the order of their priorities.
\<close>

record 'a env =
  path_exists :: "string \<Rightarrow> bool"
  filemagic :: "(string \<Rightarrow> string) option"
  subclasses :: "'a handler list"

text \<open>
  Modelled from the spec: \<^verbatim>\<open>copy_into(source, dest)\<close> of \<^verbatim>\<open>Stoner/core/utils.py\<close>
  is not among the sources.  Section 4.5 says of the handler that wins that ``its
  matrix, metadata, and column headers are copied onto the caller's instance''.  The
  matrix is the masked array with the column roles bound to it (section 3), so its
  mask and roles come with it.
\<close>

definition copy_into :: "'a datafile \<Rightarrow> 'a datafile \<Rightarrow> 'a datafile" where
  "copy_into source dest =
     dest\<lparr> data := data source, mask := mask source, setas := setas source,
           column_headers := column_headers source, metadata := metadata source \<rparr>"

text \<open>
  The short circuit at the head of the loop body:
  \<^verbatim>\<open>filemagic is not None and mimetype not in cls.mime_type\<close>.
\<close>

definition mime_skip :: "string option \<Rightarrow> 'a handler \<Rightarrow> bool" where
  "mime_skip mimetype cls =
     (case mimetype of None \<Rightarrow> False | Some m \<Rightarrow> m \<notin> set (cls_mime_type cls))"

text \<open>
  The loop \<^verbatim>\<open>for cls in subclasses(DataFile).values(): ... else: raise ...\<close> of the
  branch \<^verbatim>\<open>if auto_load\<close>.  The result is paired with the names of the classes
  whose \<^verbatim>\<open>_load\<close> was called, in the order of the calls; the code keeps no such
  list, it is there to state which handlers a load tried.
  \<^item> a class with the wrong mime type is passed over (\<^verbatim>\<open>continue\<close>);
  \<^item> \<^verbatim>\<open>except StonerLoadError\<close> and \<^verbatim>\<open>except UnicodeDecodeError\<close> both
    \<^verbatim>\<open>continue\<close>; any other exception leaves the loop and \<^verbatim>\<open>load\<close>;
  \<^item> a \<^verbatim>\<open>_load\<close> that returns \<^verbatim>\<open>None\<close> raises \<^verbatim>\<open>SyntaxError\<close>;
  \<^item> otherwise \<^verbatim>\<open>test["Loaded as"] = cls.__name__\<close>, \<^verbatim>\<open>copy_into(test, self)\<close>,
    \<^verbatim>\<open>break\<close>;
  \<^item> the \<^verbatim>\<open>else\<close> of the loop raises \<^verbatim>\<open>StonerUnrecognisedFormat\<close> with the
    keys of the registry.
\<close>

fun auto_load_loop ::
  "string option \<Rightarrow> string \<Rightarrow> string list \<Rightarrow> 'a datafile \<Rightarrow> 'a handler list
     \<Rightarrow> (exc + 'a datafile) \<times> string list" where
  "auto_load_loop mimetype fname recognised self [] =
     (Inl (StonerUnrecognisedFormat recognised), [])"
| "auto_load_loop mimetype fname recognised self (cls # rest) =
     (if mime_skip mimetype cls then auto_load_loop mimetype fname recognised self rest
      else
        (case cls_load cls fname of
           Inl e \<Rightarrow>
             if e = StonerLoadError \<or> e = UnicodeDecodeError then
               (let (r, tried) = auto_load_loop mimetype fname recognised self rest
                in (r, cls_name cls # tried))
             else (Inl e, [cls_name cls])
         | Inr None \<Rightarrow> (Inl SyntaxError, [cls_name cls])
         | Inr (Some test) \<Rightarrow>
             (Inr (copy_into (setitem_metadata ''Loaded as'' (MdString (cls_name cls)) test) self),
              [cls_name cls])))"

text \<open>
  \<^verbatim>\<open>load(filename)\<close> with a file name and no other argument, so that
  \<^verbatim>\<open>filetype\<close> is \<^verbatim>\<open>None\<close>, \<^verbatim>\<open>auto_load\<close> is true and \<^verbatim>\<open>kargs\<close> stays empty:
  the name is stored, a file that does not exist raises \<^verbatim>\<open>IOError\<close>, the mime
  type is looked up when \<^verbatim>\<open>magic\<close> is there, and the loop runs.
\<close>

definition mimetype_of :: "'a env \<Rightarrow> string \<Rightarrow> string option" where
  "mimetype_of env fname = map_option (\<lambda>m. m fname) (filemagic env)"

definition load :: "'a env \<Rightarrow> 'a datafile \<Rightarrow> string \<Rightarrow> (exc + 'a datafile) \<times> string list" where
  "load env self fname =
     (let self1 = self\<lparr>filename := Some fname\<rparr> in
      if \<not> path_exists env fname then (Inl IOError, [])
      else auto_load_loop (mimetype_of env fname) fname
             (map cls_name (subclasses env)) self1 (subclasses env))"

text \<open>
  For the statements about \<^verbatim>\<open>load\<close>: a handler that the loop leaves behind without
  ending (wrong mime type, or one of the two exceptions that are caught), and the
  names of the handlers of a list that get as far as their \<^verbatim>\<open>_load\<close>.
\<close>

definition passed_over :: "string option \<Rightarrow> string \<Rightarrow> 'a handler \<Rightarrow> bool" where
  "passed_over mimetype fname cls =
     (mime_skip mimetype cls \<or> cls_load cls fname = Inl StonerLoadError
        \<or> cls_load cls fname = Inl UnicodeDecodeError)"

definition attempted :: "string option \<Rightarrow> 'a handler list \<Rightarrow> string list" where
  "attempted mimetype hs = map cls_name (filter (\<lambda>h. \<not> mime_skip mimetype h) hs)"

text \<open>Three handlers for the examples: one for each way a parse attempt can end.\<close>

definition raising_handler :: "string \<Rightarrow> exc \<Rightarrow> int handler" where
  "raising_handler name e =
     \<lparr> cls_name = name, cls_mime_type = [''text/plain''], cls_load = (\<lambda>_. Inl e) \<rparr>"

definition loaded_example :: "int datafile" where
  "loaded_example =
     (new_datafile ''CSVFile'')
       \<lparr> data := [[1, 2], [3, 4]], mask := [[False, False], [False, False]],
         setas := ''..'', column_headers := [''A'', ''B''] \<rparr>"

definition loading_handler :: "string \<Rightarrow> int handler" where
  "loading_handler name =
     \<lparr> cls_name = name, cls_mime_type = [''text/plain''],
       cls_load = (\<lambda>f. Inr (Some (loaded_example\<lparr>filename := Some f\<rparr>))) \<rparr>"

definition example_env :: "int handler list \<Rightarrow> int env" where
  "example_env hs = \<lparr> path_exists = (\<lambda>_. True), filemagic = None, subclasses = hs \<rparr>"

section \<open>Deleting columns by a list of booleans (\<^verbatim>\<open>DataFile.del_column\<close>)\<close>

text \<open>
  Indexing a one-dimensional numpy array with a boolean array, \<^verbatim>\<open>a[col]\<close>: the
  elements at the positions where \<open>col\<close> is true, in order; \<^verbatim>\<open>IndexError\<close> when
  the two lengths differ.
\<close>

definition bool_index :: "'b list \<Rightarrow> bool list \<Rightarrow> exc + 'b list" where
  "bool_index xs col =
     (if length col \<noteq> length xs then Inl IndexError
      else Inr (map fst (filter snd (zip xs col))))"

text \<open>
  The same along the second axis of a matrix, \<^verbatim>\<open>a[:, col]\<close>: every row is indexed.
\<close>

fun bool_index_cols :: "'b list list \<Rightarrow> bool list \<Rightarrow> exc + 'b list list" where
  "bool_index_cols [] col = Inr []"
| "bool_index_cols (row # rows) col =
     (case bool_index row col of
        Inl e \<Rightarrow> Inl e
      | Inr r \<Rightarrow>
          (case bool_index_cols rows col of
             Inl e \<Rightarrow> Inl e
           | Inr rs \<Rightarrow> Inr (r # rs)))"

text \<open>
  \<^verbatim>\<open>del_column(col)\<close> with \<^verbatim>\<open>duplicates\<close> false and \<open>col\<close> a list of booleans.
  Such a \<open>col\<close> is neither \<^verbatim>\<open>None\<close> nor a \<^verbatim>\<open>bool\<close>, so the first two branches
  are not taken, and it is an iterable of booleans, so the third one is:
  \<^verbatim>\<open>
    col = ~np.array(col)
    new_setas = np.array(self.setas)[col]
    new_column_headers = np.array(self.column_headers)[col]
    self.data = self.data[:, col]
    self.setas = new_setas
    self.column_headers = new_column_headers
  \<close>
  Indexing the masked array \<^verbatim>\<open>self.data\<close> indexes its mask with it.  An exception
  of one of the three indexing steps comes before the first assignment.
\<close>

definition del_column_bools :: "bool list \<Rightarrow> 'a datafile \<Rightarrow> exc + 'a datafile" where
  "del_column_bools col0 d =
     (let col = map Not col0 in
      case bool_index (setas d) col of
        Inl e \<Rightarrow> Inl e
      | Inr new_setas \<Rightarrow>
          (case bool_index (column_headers d) col of
             Inl e \<Rightarrow> Inl e
           | Inr new_column_headers \<Rightarrow>
               (case bool_index_cols (data d) col of
                  Inl e \<Rightarrow> Inl e
                | Inr new_data \<Rightarrow>
                    (case bool_index_cols (mask d) col of
                       Inl e \<Rightarrow> Inl e
                     | Inr new_mask \<Rightarrow>
                         Inr (d\<lparr> data := new_data, mask := new_mask, setas := new_setas,
                                 column_headers := new_column_headers \<rparr>)))))"

text \<open>
  What the docstring of \<^verbatim>\<open>del_column\<close> says of this case: ``If col is an iterable of
  booleans, then all columns whose elements are False are deleted''.  The elements of
  a list at the positions where the selector is true:
\<close>

definition kept_where_true :: "'b list \<Rightarrow> bool list \<Rightarrow> 'b list" where
  "kept_where_true xs col = map fst (filter snd (zip xs col))"

text \<open>A file of two rows and three columns for the examples.\<close>

definition three_columns :: "int datafile" where
  "three_columns =
     (new_datafile ''DataFile'')
       \<lparr> data := [[1, 2, 3], [4, 5, 6]],
         mask := [[False, False, False], [False, True, False]],
         setas := ''xy.'', column_headers := [''A'', ''B'', ''C''] \<rparr>"

section \<open>The stack of masks (\<^verbatim>\<open>_push_mask\<close>, \<^verbatim>\<open>_pop_mask\<close>)\<close>







section \<open>Construction from a dictionary (\<^verbatim>\<open>DataFile._init_single\<close>)\<close>

text \<open>
  The values a dictionary given to the constructor may hold: numpy arrays of one or
  two dimensions, Python lists of numbers, strings, integers, booleans, numbers.  The
  keys are strings.
\<close>

datatype 'a pyval =
    Ndarray1 "'a list"
  | Ndarray2 "'a list list"
  | PyList "'a list"
  | PyString string
  | PyInteger int
  | PyBoolean bool
  | PyNumber 'a

text \<open>\<^verbatim>\<open>isinstance(v, np.ndarray)\<close>, \<^verbatim>\<open>len(v.shape)\<close> and \<^verbatim>\<open>len(v)\<close> of an array.\<close>

fun is_ndarray :: "'a pyval \<Rightarrow> bool" where
  "is_ndarray (Ndarray1 _) = True"
| "is_ndarray (Ndarray2 _) = True"
| "is_ndarray _ = False"

fun ndim :: "'a pyval \<Rightarrow> nat" where
  "ndim (Ndarray1 _) = 1"
| "ndim (Ndarray2 _) = 2"
| "ndim _ = 0"

fun len :: "'a pyval \<Rightarrow> nat" where
  "len (Ndarray1 xs) = length xs"
| "len (Ndarray2 rows) = length rows"
| "len (PyList xs) = length xs"
| "len (PyString s) = length s"
| "len _ = 0"

text \<open>
  Modelled from the spec: \<^verbatim>\<open>all_type(iterator, typ)\<close> is defined in
  \<^verbatim>\<open>Stoner/tools\<close>, which is not among the sources.  Section 4.4 has the data
  branch taken for a ``dict of string\<rightarrow>1-D-array (equal lengths)'', and the docstring
  of \<^verbatim>\<open>__init__\<close> for keys that ``are all strings'' and values that ``are all numpy
  1D arrays of equal length'': the test holds when every element is an instance of
  the type.
\<close>

definition all_type :: "'b list \<Rightarrow> ('b \<Rightarrow> bool) \<Rightarrow> bool" where
  "all_type xs typ = list_all typ xs"

text \<open>
  \<^verbatim>\<open>np.column_stack\<close> of one-dimensional arrays of one length \<open>n\<close>: the matrix of
  \<open>n\<close> rows whose columns are the arrays.  Without any array it raises
  \<^verbatim>\<open>ValueError\<close>, and so it does when the lengths differ.
\<close>

fun column_rows :: "nat \<Rightarrow> 'a list list \<Rightarrow> 'a list list" where
  "column_rows 0 cols = []"
| "column_rows (Suc n) cols = map hd cols # column_rows n (map tl cols)"

definition column_stack :: "'a list list \<Rightarrow> exc + 'a list list" where
  "column_stack cols =
     (case cols of
        [] \<Rightarrow> Inl ValueError
      | c # cs \<Rightarrow>
          if list_all (\<lambda>c'. length c' = length c) cs
          then Inr (column_rows (length c) cols)
          else Inl ValueError)"

fun array1 :: "'a pyval \<Rightarrow> 'a list" where
  "array1 (Ndarray1 xs) = xs"
| "array1 _ = []"

text \<open>
  Modelled from the spec: the setter of the property \<^verbatim>\<open>data\<close> is defined in
  \<^verbatim>\<open>Stoner/core/property.py\<close>, which is not among the sources.  Section 4.4: a 2-D
  numeric array ``becomes the data matrix''; section 3: the matrix has a mask of
  identical shape and the roles have one symbol for each column, \<open>.\<close> for unset.  A
  plain array becomes the masked array of the object with nothing masked, and no
  column has a role.
\<close>

definition set_data :: "'a list list \<Rightarrow> 'a datafile \<Rightarrow> 'a datafile" where
  "set_data m d =
     d\<lparr> data := m, mask := map (map (\<lambda>_. False)) m, setas := replicate (ncols m) (CHR ''.'') \<rparr>"

text \<open>A dictionary value as a metadata value (\<^verbatim>\<open>self.metadata = arg.copy()\<close>).\<close>

fun to_mdvalue :: "'a pyval \<Rightarrow> 'a mdvalue" where
  "to_mdvalue (Ndarray1 xs) = MdArray xs"
| "to_mdvalue (Ndarray2 rows) = MdArray2 rows"
| "to_mdvalue (PyList xs) = MdList xs"
| "to_mdvalue (PyString s) = MdString s"
| "to_mdvalue (PyInteger i) = MdInt i"
| "to_mdvalue (PyBoolean b) = MdBool b"
| "to_mdvalue (PyNumber x) = MdNumber x"

text \<open>
  The branch of \<^verbatim>\<open>_init_single\<close> for a dictionary:
  \<^verbatim>\<open>
    if (all_type(arg.keys(), string_types)
        and all_type(arg.values(), np.ndarray)
        and np.all([len(arg[k].shape) == 1
                    and np.all(len(arg[k]) == len(list(arg.values())[0])) for k in arg])):
        self.data = np.column_stack(tuple(arg.values()))
        self.column_headers = list(arg.keys())
    else:
        self.metadata = arg.copy()
  \<close>
  The dictionary is the list of its items in insertion order.
\<close>

definition init_single_dict :: "(string \<times> 'a pyval) list \<Rightarrow> 'a datafile \<Rightarrow> exc + 'a datafile" where
  "init_single_dict arg self =
     (if all_type (map snd arg) is_ndarray
         \<and> list_all (\<lambda>(k, v). ndim v = 1 \<and> len v = len (snd (hd arg))) arg
      then
        (case column_stack (map (array1 \<circ> snd) arg) of
           Inl e \<Rightarrow> Inl e
         | Inr m \<Rightarrow> Inr ((set_data m self)\<lparr>column_headers := map fst arg\<rparr>))
      else Inr (self\<lparr>metadata := map (\<lambda>(k, v). (k, to_mdvalue v)) arg\<rparr>))"

text \<open>
  \<^verbatim>\<open>DataFile(arg)\<close> for a dictionary: the fresh object, \<^verbatim>\<open>_init_single\<close>, then
  \<^verbatim>\<open>self.metadata["Stoner.class"] = self.__class__.__name__\<close>.
\<close>

definition DataFile_from_dict :: "string \<Rightarrow> (string \<times> 'a pyval) list \<Rightarrow> exc + 'a datafile" where
  "DataFile_from_dict clsname arg =
     (case init_single_dict arg blank_datafile of
        Inl e \<Rightarrow> Inl e
      | Inr d \<Rightarrow> Inr (setitem_metadata ''Stoner.class'' (MdString clsname) d))"

section \<open>Column roles (\<^verbatim>\<open>setas\<close>)\<close>






section \<open>The image stack (\<^verbatim>\<open>ImageStackMixin\<close>)\<close>

subsection \<open>Arrays of three dimensions\<close>

text \<open>The numpy types of the elements of an array, and \<^verbatim>\<open>dtype.kind\<close>.\<close>

datatype dtype =
    Bool8 | Uint8 | Uint16 | Uint32 | Uint64
  | Int8 | Int16 | Int32 | Int64
  | Float16 | Float32 | Float64
  | Complex64 | Complex128


text \<open>
  The array \<^verbatim>\<open>_stack\<close> of shape \<open>(rows, cols, pages)\<close>: its pages, each a matrix of
  \<open>rows\<close> rows of \<open>cols\<close> elements, and the two dimensions, which an array without
  pages still has.
\<close>

record 'a buffer =
  buf_rows :: nat
  buf_cols :: nat
  pages :: "'a list list list"
  dtype :: dtype

definition buffer_shape :: "'a buffer \<Rightarrow> nat \<times> nat \<times> nat" where
  "buffer_shape b = (buf_rows b, buf_cols b, length (pages b))"

text \<open>\<^verbatim>\<open>np.zeros\<close> for a matrix and for a list of pages.\<close>

definition zeros2 :: "nat \<Rightarrow> nat \<Rightarrow> ('a::zero) list list" where
  "zeros2 r c = replicate r (replicate c 0)"

definition zeros3 :: "nat \<Rightarrow> nat \<Rightarrow> nat \<Rightarrow> ('a::zero) list list list" where
  "zeros3 r c p = replicate p (zeros2 r c)"

text \<open>
  The slice assignment \<^verbatim>\<open>new[:row, :col, :pag] = old[:row, :col, :pag]\<close>, level by
  level; \<open>row\<close>, \<open>col\<close> and \<open>pag\<close> do not exceed the sizes of either array.
\<close>

definition copy_row :: "nat \<Rightarrow> 'a list \<Rightarrow> 'a list \<Rightarrow> 'a list" where
  "copy_row col old new = take col old @ drop col new"

definition copy_page :: "nat \<Rightarrow> nat \<Rightarrow> 'a list list \<Rightarrow> 'a list list \<Rightarrow> 'a list list" where
  "copy_page row col old new =
     map (\<lambda>(old_row, new_row). copy_row col old_row new_row) (zip (take row old) (take row new))
       @ drop row new"

definition copy_pages ::
  "nat \<Rightarrow> nat \<Rightarrow> nat \<Rightarrow> 'a list list list \<Rightarrow> 'a list list list \<Rightarrow> 'a list list list" where
  "copy_pages row col pag old new =
     map (\<lambda>(old_page, new_page). copy_page row col old_page new_page) (zip (take pag old) (take pag new))
       @ drop pag new"

text \<open>
  Indices.  A Python or numpy index \<open>i\<close> into a sequence of length \<open>n\<close> is valid from
  \<open>-n\<close> to \<open>n - 1\<close>, a negative one counting from the end; an insertion point of
  \<^verbatim>\<open>np.insert\<close> may also be \<open>n\<close>.  \<^verbatim>\<open>list.insert\<close> clamps its index instead of
  raising.
\<close>

definition norm_index :: "int \<Rightarrow> nat \<Rightarrow> nat option" where
  "norm_index i n =
     (if 0 \<le> i \<and> i < int n then Some (nat i)
      else if i < 0 \<and> - int n \<le> i then Some (nat (int n + i))
      else None)"

definition insert_index :: "int \<Rightarrow> nat \<Rightarrow> nat option" where
  "insert_index i n =
     (if 0 \<le> i \<and> i \<le> int n then Some (nat i)
      else if i < 0 \<and> - int n \<le> i then Some (nat (int n + i))
      else None)"

definition insert_at :: "nat \<Rightarrow> 'b \<Rightarrow> 'b list \<Rightarrow> 'b list" where
  "insert_at p x xs = take p xs @ x # drop p xs"

definition delete_at :: "nat \<Rightarrow> 'b list \<Rightarrow> 'b list" where
  "delete_at p xs = take p xs @ drop (Suc p) xs"

definition list_insert :: "int \<Rightarrow> 'b \<Rightarrow> 'b list \<Rightarrow> 'b list" where
  "list_insert i x xs =
     (let n = int (length xs);
          j = (if i < 0 then max 0 (n + i) else min i n)
      in insert_at (nat j) x xs)"

fun index_of :: "'b \<Rightarrow> 'b list \<Rightarrow> nat" where
  "index_of x [] = 0"
| "index_of x (y # ys) = (if x = y then 0 else Suc (index_of x ys))"

subsection \<open>The stack and its pages\<close>

text \<open>An image as it is stored: the pixel array, its type and the metadata.\<close>

record ('a, 'm) image =
  image_data :: "'a list list"
  image_dtype :: dtype
  image_metadata :: 'm

definition image_shape :: "('a, 'm) image \<Rightarrow> nat \<times> nat" where
  "image_shape v = (length (image_data v), ncols (image_data v))"

text \<open>
  The private data of an \<^verbatim>\<open>ImageStackMixin\<close>: the array \<^verbatim>\<open>_stack\<close>, the ordered
  dictionary \<^verbatim>\<open>_metadata\<close> from page names to metadata, the list \<^verbatim>\<open>_names\<close> and the
  array \<^verbatim>\<open>_sizes\<close> with one row \<open>(rows, cols)\<close> for each page.
\<close>

record ('a, 'm) imagestack =
  stack :: "'a buffer"
  stack_metadata :: "(string \<times> 'm) list"
  names :: "string list"
  sizes :: "(nat \<times> nat) list"

text \<open>
  \<^verbatim>\<open>__init__\<close> without arguments: \<^verbatim>\<open>np.atleast_3d(np.ma.MaskedArray([]))\<close> is an
  array of shape \<open>(1, 0, 1)\<close>, one page of one empty row, of type \<^verbatim>\<open>float64\<close>.
\<close>

definition empty_stack :: "('a, 'm) imagestack" where
  "empty_stack =
     \<lparr> stack = \<lparr> buf_rows = 1, buf_cols = 0, pages = [[[]]], dtype = Float64 \<rparr>,
       stack_metadata = [], names = [], sizes = [] \<rparr>"

text \<open>
  \<^verbatim>\<open>__names__\<close>: the keys of \<^verbatim>\<open>_metadata\<close>.  The dictionary is a \<^verbatim>\<open>regexpDict\<close>
  (its class is not among the sources); an assignment to a key and the deletion of
  a key are those of an ordered dictionary, \<open>AList.update\<close> and \<open>AList.delete\<close>.
\<close>

definition names_of :: "('a, 'm) imagestack \<Rightarrow> string list" where
  "names_of s = map fst (stack_metadata s)"

text \<open>
  The property \<^verbatim>\<open>max_size\<close>: \<open>(0, 0)\<close> without sizes, else the largest number of
  rows and the largest number of columns.
\<close>

definition max_size :: "('a, 'm) imagestack \<Rightarrow> nat \<times> nat" where
  "max_size s =
     (if sizes s = [] then (0, 0)
      else (fold max (map fst (sizes s)) 0, fold max (map snd (sizes s)) 0))"

text \<open>
  \<^verbatim>\<open>_resize_stack(new_size, dtype)\<close>: nothing when the shape is the new one already;
  else an array of zeros of the new shape and of the type given (the old type for
  \<^verbatim>\<open>None\<close>) receives the part of the old array that the two shapes share.
\<close>

definition resize_stack ::
  "nat \<times> nat \<times> nat \<Rightarrow> dtype option \<Rightarrow> ('a::zero, 'm) imagestack \<Rightarrow> ('a, 'm) imagestack" where
  "resize_stack new_size dt s =
     (let old = stack s; old_size = buffer_shape old in
      if old_size = new_size then s
      else
        (case new_size of (nr, nc, np) \<Rightarrow>
           let dt' = (case dt of None \<Rightarrow> dtype old | Some t \<Rightarrow> t);
               row = min (buf_rows old) nr; col = min (buf_cols old) nc;
               pag = min (length (pages old)) np
           in s\<lparr>stack := \<lparr> buf_rows = nr, buf_cols = nc,
                            pages = copy_pages row col pag (pages old) (zeros3 nr nc np),
                            dtype = dt' \<rparr>\<rparr>))"

text \<open>
  The assignment \<^verbatim>\<open>self._stack[:row, :col, idx] = value\<close> on one page, \<open>(row, col)\<close>
  being the shape of the value.
\<close>

fun write_region :: "'a list list \<Rightarrow> 'a list list \<Rightarrow> 'a list list" where
  "write_region (v # vs) (p # ps) = (v @ drop (length v) p) # write_region vs ps"
| "write_region vs ps = ps"

definition write_page :: "nat \<Rightarrow> 'a list list \<Rightarrow> 'a buffer \<Rightarrow> 'a buffer" where
  "write_page idx val b = b\<lparr>pages := (pages b)[idx := write_region val (pages b ! idx)]\<rparr>"

text \<open>A page is named by an integer or by a string.\<close>

datatype key = KInt int | KName string

text \<open>
  \<^verbatim>\<open>__lookup__(name)\<close>.  An integer is returned as it is when it indexes a page of
  the array, and raises \<^verbatim>\<open>KeyError\<close> when it does not.  A string that is none of
  the names goes through \<^verbatim>\<open>self._metadata.__lookup__\<close>, the search by regular
  expression of \<^verbatim>\<open>regexpDict\<close>, which is the argument \<open>rx\<close> here (\<open>None\<close> for its
  \<^verbatim>\<open>KeyError\<close>); the result is the position of the name among the keys of
  \<^verbatim>\<open>_metadata\<close>, and \<^verbatim>\<open>list.index\<close> raises \<^verbatim>\<open>ValueError\<close> for a name that is not
  there.
\<close>

definition lookup ::
  "(string \<Rightarrow> string list \<Rightarrow> string option) \<Rightarrow> key \<Rightarrow> ('a, 'm) imagestack \<Rightarrow> exc + int" where
  "lookup rx name s =
     (case name of
        KInt i \<Rightarrow>
          (case norm_index i (length (pages (stack s))) of
             None \<Rightarrow> Inl KeyError
           | Some _ \<Rightarrow> Inr i)
      | KName n \<Rightarrow>
          (case (if n \<in> set (names_of s) then Some n else rx n (names_of s)) of
             None \<Rightarrow> Inl KeyError
           | Some n' \<Rightarrow>
               if n' \<in> set (names_of s) then Inr (int (index_of n' (names_of s)))
               else Inl ValueError))"

text \<open>
  \<^verbatim>\<open>__inserter__(ix, name, value)\<close>.  Every method below returns the exception it
  raised, if any, with the state it leaves: what was assigned before an exception
  stays assigned.
  \<^verbatim>\<open>
    self._names.insert(ix, name)
    self._metadata[name] = value.metadata
    self._sizes = np.insert(self._sizes, ix, value.shape, axis=0)
    new_size = self.max_size + (len(self._names),)
    if new_size[2] == 1: dtype = value.dtype
    else: dtype = None
    self._resize_stack(new_size, dtype=dtype)
    self._stack = np.insert(self._stack, ix, np.zeros(self.max_size), axis=2)
    row, col = value.shape
    self._stack[:row, :col, ix] = value.data
  \<close>
\<close>

definition inserter ::
  "int \<Rightarrow> string \<Rightarrow> ('a::zero, 'm) image \<Rightarrow> ('a, 'm) imagestack
     \<Rightarrow> exc option \<times> ('a, 'm) imagestack" where
  "inserter ix name val s =
     (let s1 = s\<lparr> names := list_insert ix name (names s),
                  stack_metadata := AList.update name (image_metadata val) (stack_metadata s) \<rparr>
      in case insert_index ix (length (sizes s1)) of
           None \<Rightarrow> (Some IndexError, s1)
         | Some p \<Rightarrow>
             (let s2 = s1\<lparr>sizes := insert_at p (image_shape val) (sizes s1)\<rparr>;
                  new_size = (fst (max_size s2), snd (max_size s2), length (names s2));
                  dt = (if length (names s2) = 1 then Some (image_dtype val) else None);
                  s3 = resize_stack new_size dt s2
              in case insert_index ix (length (pages (stack s3))) of
                   None \<Rightarrow> (Some IndexError, s3)
                 | Some q \<Rightarrow>
                     (let s4 = s3\<lparr>stack := (stack s3)
                                   \<lparr>pages := insert_at q (zeros2 (fst (max_size s3)) (snd (max_size s3)))
                                               (pages (stack s3))\<rparr>\<rparr>
                      in case norm_index ix (length (pages (stack s4))) of
                           None \<Rightarrow> (Some IndexError, s4)
                         | Some w \<Rightarrow>
                             (None, s4\<lparr>stack := write_page w (image_data val) (stack s4)\<rparr>))))"

text \<open>
  \<^verbatim>\<open>__setter__(name, value, force_insert)\<close> for a value that is an image.  An
  integer is turned into the name at that position, or into \<^verbatim>\<open>make_name(value)\<close>
  when there is none; \<^verbatim>\<open>make_name\<close>, of the folder classes, is an argument.  When
  the look-up of the name raises \<^verbatim>\<open>KeyError\<close>, or \<^verbatim>\<open>force_insert\<close> is set, the
  image is inserted at position \<^verbatim>\<open>len(self)\<close>.  Modelled from the spec:
  \<^verbatim>\<open>__len__\<close> comes from the folder classes, which are not among the sources; by
  section 4.6 a new page is appended, so \<^verbatim>\<open>len(self)\<close> is the number of names that
  \<^verbatim>\<open>__names__\<close> returns.  Otherwise the page found is overwritten (the
  conversions \<^verbatim>\<open>self.type(value)\<close> and \<^verbatim>\<open>ImageFile(value)\<close> leave an image as it
  is):
  \<^verbatim>\<open>
    self._sizes[idx] = value.shape
    self._metadata[name] = value.metadata
    row, col = value.shape
    pag = len(self._sizes)
    new_size = self.max_size + (pag,)
    if new_size[2] == 1: dtype = value.dtype
    else: dtype = None
    self._resize_stack(new_size, dtype=dtype)
    self._stack[:row, :col, idx] = value
  \<close>
\<close>

definition setter ::
  "(string \<Rightarrow> string list \<Rightarrow> string option) \<Rightarrow> (('a::zero, 'm) image \<Rightarrow> string)
     \<Rightarrow> key \<Rightarrow> ('a, 'm) image \<Rightarrow> bool \<Rightarrow> ('a, 'm) imagestack
     \<Rightarrow> exc option \<times> ('a, 'm) imagestack" where
  "setter rx make_name name0 val force_insert s =
     (let name = (case name0 of
                    KName n \<Rightarrow> n
                  | KInt i \<Rightarrow>
                      (case norm_index i (length (names_of s)) of
                         Some p \<Rightarrow> names_of s ! p
                       | None \<Rightarrow> make_name val))
      in case (if force_insert then Inl KeyError else lookup rx (KName name) s) of
           Inl e \<Rightarrow>
             if e = KeyError then inserter (int (length (names_of s))) name val s
             else (Some e, s)
         | Inr idx \<Rightarrow>
             (case norm_index idx (length (sizes s)) of
                None \<Rightarrow> (Some IndexError, s)
              | Some p \<Rightarrow>
                  (let s1 = s\<lparr> sizes := (sizes s)[p := image_shape val],
                               stack_metadata :=
                                 AList.update name (image_metadata val) (stack_metadata s) \<rparr>;
                       pag = length (sizes s1);
                       new_size = (fst (max_size s1), snd (max_size s1), pag);
                       dt = (if pag = 1 then Some (image_dtype val) else None);
                       s2 = resize_stack new_size dt s1
                   in case norm_index idx (length (pages (stack s2))) of
                        None \<Rightarrow> (Some IndexError, s2)
                      | Some w \<Rightarrow>
                          (None, s2\<lparr>stack := write_page w (image_data val) (stack s2)\<rparr>))))"

text \<open>
  \<^verbatim>\<open>__deleter__(ix)\<close>:
  \<^verbatim>\<open>
    idx = self.__lookup__(ix)
    name = list(self.__names__())[idx]
    del self._metadata[name]
    self._stack = np.delete(self._stack, idx, axis=2)
    del self._names[idx]
    self._sizes = np.delete(self._sizes, ix, axis=0)
  \<close>
  The last line deletes at \<open>ix\<close>, the argument, not at \<open>idx\<close>: for a name,
  \<^verbatim>\<open>np.delete\<close> is given a string and raises \<^verbatim>\<open>IndexError\<close>, as it does for an
  integer out of range.
\<close>

definition deleter ::
  "(string \<Rightarrow> string list \<Rightarrow> string option) \<Rightarrow> key \<Rightarrow> ('a, 'm) imagestack
     \<Rightarrow> exc option \<times> ('a, 'm) imagestack" where
  "deleter rx ix s =
     (case lookup rx ix s of
        Inl e \<Rightarrow> (Some e, s)
      | Inr idx \<Rightarrow>
          (case norm_index idx (length (names_of s)) of
             None \<Rightarrow> (Some IndexError, s)
           | Some k \<Rightarrow>
               (let s1 = s\<lparr>stack_metadata := AList.delete (names_of s ! k) (stack_metadata s)\<rparr>
                in case norm_index idx (length (pages (stack s1))) of
                     None \<Rightarrow> (Some IndexError, s1)
                   | Some q \<Rightarrow>
                       (let s2 = s1\<lparr>stack := (stack s1)\<lparr>pages := delete_at q (pages (stack s1))\<rparr>\<rparr>
                        in case norm_index idx (length (names s2)) of
                             None \<Rightarrow> (Some IndexError, s2)
                           | Some n \<Rightarrow>
                               (let s3 = s2\<lparr>names := delete_at n (names s2)\<rparr>
                                in case ix of
                                     KName _ \<Rightarrow> (Some IndexError, s3)
                                   | KInt i \<Rightarrow>
                                       (case norm_index i (length (sizes s3)) of
                                          None \<Rightarrow> (Some IndexError, s3)
                                        | Some z \<Rightarrow>
                                            (None, s3\<lparr>sizes := delete_at z (sizes s3)\<rparr>)))))))"

text \<open>
  The invariant of section 3: as many names as pages of the array as recorded sizes,
  and every recorded size within the rows and columns of the array.
\<close>

definition lock_step :: "('a, 'm) imagestack \<Rightarrow> bool" where
  "lock_step s =
     (length (names s) = length (pages (stack s))
      \<and> length (pages (stack s)) = length (sizes s)
      \<and> list_all (\<lambda>(r, c). r \<le> buf_rows (stack s) \<and> c \<le> buf_cols (stack s)) (sizes s))"

text \<open>For the examples: no search by regular expression, and a fixed new name.\<close>

definition no_rx :: "string \<Rightarrow> string list \<Rightarrow> string option" where
  "no_rx pat keys = None"

definition untitled :: "(int, unit) image \<Rightarrow> string" where
  "untitled v = ''Untitled''"

definition one_pixel :: "(int, unit) image" where
  "one_pixel = \<lparr> image_data = [[5]], image_dtype = Int32, image_metadata = () \<rparr>"

section \<open>The ratio of two stacks (\<^verbatim>\<open>ImageStackMixin.__floordiv__\<close>)\<close>














section \<open>Copying a \<^verbatim>\<open>DataFile\<close> (\<^verbatim>\<open>__deepcopy__\<close>, \<^verbatim>\<open>clone\<close>)\<close>













section \<open>Properties of the extension normalisation\<close>

lemma rfind_from_cases:
  "rfind_from c s i acc = acc \<or>
   (\<exists>k. rfind_from c s i acc = int (i + k) \<and> k < length s \<and> s ! k = c)"
proof (induction s arbitrary: i acc)
  case Nil
  then show ?case by simp
next
  case (Cons x xs)
  let ?acc' = "if x = c then int i else acc"
  from Cons.IH[of "Suc i" ?acc']
  consider (keep) "rfind_from c xs (Suc i) ?acc' = ?acc'"
    | (hit) k where "rfind_from c xs (Suc i) ?acc' = int (Suc i + k)" "k < length xs" "xs ! k = c"
    by blast
  then show ?case
  proof cases
    case keep
    show ?thesis
    proof (cases "x = c")
      case True
      with keep have "rfind_from c (x # xs) i acc = int (i + 0) \<and> 0 < length (x # xs) \<and> (x # xs) ! 0 = c"
        by simp
      then show ?thesis by blast
    next
      case False
      with keep show ?thesis by simp
    qed
  next
    case hit
    then have "rfind_from c (x # xs) i acc = int (i + Suc k) \<and> Suc k < length (x # xs) \<and> (x # xs) ! Suc k = c"
      by simp
    then show ?thesis by blast
  qed
qed

lemma rfind_cases:
  "rfind c s = - 1 \<or> (\<exists>k. rfind c s = int k \<and> k < length s \<and> s ! k = c)"
  using rfind_from_cases[of c s 0 "- 1"] by (simp add: rfind_def)

lemma skip_leading_dots_Some:
  "skip_leading_dots p e f d = Some r \<Longrightarrow> r = (take d p, drop d p)"
proof (induction p e f d rule: skip_leading_dots.induct)
  case (1 p extsep filenameIndex dotIndex)
  show ?case
  proof (cases "filenameIndex < dotIndex")
    case False
    with "1.prems" show ?thesis
      by (subst (asm) skip_leading_dots.simps) simp
  next
    case lt: True
    show ?thesis
    proof (cases "take 1 (drop filenameIndex p) \<noteq> [extsep]")
      case True
      with lt "1.prems" show ?thesis
        by (subst (asm) skip_leading_dots.simps) simp
    next
      case False
      with lt "1.prems" have "skip_leading_dots p extsep (Suc filenameIndex) dotIndex = Some r"
        by (subst (asm) skip_leading_dots.simps) simp
      with "1.IH" lt False show ?thesis by blast
    qed
  qed
qed

lemma splitext_generic_cases:
  "splitext_generic p sep altsep extsep = (p, []) \<or>
   (\<exists>d. d < length p \<and> p ! d = extsep \<and>
        splitext_generic p sep altsep extsep = (take d p, drop d p))"
proof -
  define sepIndex where "sepIndex = (case altsep of None \<Rightarrow> rfind sep p
                      | Some a \<Rightarrow> max (rfind sep p) (rfind a p))"
  have sep_ge: "- 1 \<le> sepIndex"
    using rfind_cases[of sep p] by (auto simp: sepIndex_def split: option.splits)
  show ?thesis
  proof (cases "rfind extsep p > sepIndex")
    case False
    then show ?thesis by (simp add: splitext_generic_def sepIndex_def Let_def)
  next
    case True
    with sep_ge rfind_cases[of extsep p] obtain d where
      d: "rfind extsep p = int d" "d < length p" "p ! d = extsep" by auto
    show ?thesis
    proof (cases "skip_leading_dots p extsep (nat (sepIndex + 1)) d")
      case None
      with True d show ?thesis by (simp add: splitext_generic_def sepIndex_def Let_def)
    next
      case (Some r)
      then have "r = (take d p, drop d p)" by (rule skip_leading_dots_Some)
      with Some True d have "splitext_generic p sep altsep extsep = (take d p, drop d p)"
        by (simp add: splitext_generic_def sepIndex_def Let_def)
      with d show ?thesis by blast
    qed
  qed
qed

lemma splitext_ext:
  assumes "splitext p = (stem, ext)"
  shows "stem @ ext = p \<and> (ext = [] \<or> (\<exists>r. ext = CHR ''.'' # r))"
proof -
  from splitext_generic_cases[of p "CHR ''/''" None "CHR ''.''"]
  consider (whole) "splitext p = (p, [])"
    | (cut) d where "d < length p" "p ! d = CHR ''.''" "splitext p = (take d p, drop d p)"
    unfolding splitext_def by blast
  then show ?thesis
  proof cases
    case whole
    with assms show ?thesis by simp
  next
    case cut
    from Cons_nth_drop_Suc[OF cut(1)] cut(2) have "drop d p = CHR ''.'' # drop (Suc d) p"
      by simp
    moreover have "take d p @ drop d p = p" by simp
    ultimately show ?thesis using cut(3) assms by auto
  qed
qed

lemma star_dot_ext_not_pattern:
  "ext = [] \<or> (\<exists>r. ext = CHR ''.'' # r) \<Longrightarrow> (''*.'' @ ext) \<notin> set patterns_attr"
  by (auto simp: patterns_attr_def)

text \<open>
  Claim C10.  Whatever file name with a non-empty extension \<^verbatim>\<open>save\<close> is given,
  the extension \<^verbatim>\<open>os.path.splitext\<close> returns starts with a dot, so the string
  \<^verbatim>\<open>"*." + ext\<close> is in no case one of the patterns \<^verbatim>\<open>*.txt\<close>, \<^verbatim>\<open>*.tdi\<close>, and
  the file written is the stem of the name followed by \<^verbatim>\<open>.txt\<close>; this holds for
  the extension \<^verbatim>\<open>.tdi\<close> as for any other.
\<close>

theorem save_extension_always_txt:
  assumes "snd (splitext fname) \<noteq> []"
  shows "hd (snd (splitext fname)) = CHR ''.''
       \<and> (''*.'' @ snd (splitext fname)) \<notin> set patterns_attr
       \<and> save_filename patterns_attr fname = Inr (fst (splitext fname) @ ''.txt'')"
proof -
  obtain stem ext where se: "splitext fname = (stem, ext)" by (cases "splitext fname")
  from splitext_ext[OF se] assms se obtain r where ext: "ext = CHR ''.'' # r" by auto
  then have notin: "(''*.'' @ ext) \<notin> set patterns_attr"
    by (intro star_dot_ext_not_pattern) blast
  then have "save_filename patterns_attr fname = Inr (stem @ ''.txt'')"
    using se by (simp add: save_filename_def patterns_attr_def)
  with ext notin se show ?thesis by simp
qed

theorem save_extension_always_txt_witness:
  "snd (splitext ''run1.tdi'') \<noteq> []
   \<and> (''*.'' @ snd (splitext ''run1.tdi'')) \<notin> set patterns_attr
   \<and> save_filename patterns_attr ''run1.tdi'' = Inr ''run1.txt''"
proof -
  have se: "splitext ''run1.tdi'' = (''run1'', ''.tdi'')" by code_simp
  then have h: "snd (splitext ''run1.tdi'') \<noteq> []" by simp
  from save_extension_always_txt[OF h] se h show ?thesis by simp
qed

section \<open>Properties of the header check\<close>

lemma split_on_hd:
  "\<exists>fs. split_on sep s = takeWhile (\<lambda>c. c \<noteq> sep) s # fs"
  by (induction s) (auto split: list.splits)

lemma csv_row_first:
  "line \<noteq> [] \<Longrightarrow> \<exists>fs. csv_row line = takeWhile (\<lambda>c. c \<noteq> CHR 0x09) line # fs"
  using split_on_hd[of "CHR 0x09" line] by (simp add: csv_row_def)

lemma strip_Nil: "strip [] = []"
  by (simp add: strip_def)

lemma header_try_markers:
  "(\<exists>row. header_try txt = Inr (Fmt_1_5, row)) = (strip (first_field txt) = ''TDI Format 1.5'')"
  "(\<exists>row. header_try txt = Inr (Fmt_1_0, row)) =
     (strip (first_field txt) \<noteq> ''TDI Format 1.5'' \<and> strip (first_field txt) = ''TDI Format=Text 1.0'')"
proof -
  let ?line = "takeWhile (\<lambda>c. \<not> is_newline c) txt"
  show "(\<exists>row. header_try txt = Inr (Fmt_1_5, row)) = (strip (first_field txt) = ''TDI Format 1.5'')"
  proof (cases "txt = []")
    case True
    then show ?thesis by (simp add: header_try_def reader_next_def first_field_def strip_Nil)
  next
    case ne: False
    show ?thesis
    proof (cases "?line = []")
      case True
      with ne show ?thesis
        by (simp add: header_try_def reader_next_def first_field_def strip_Nil csv_row_def)
    next
      case False
      from csv_row_first[OF False] obtain fs where
        "csv_row ?line = first_field txt # fs" by (auto simp: first_field_def)
      with ne show ?thesis by (simp add: header_try_def reader_next_def)
    qed
  qed
  show "(\<exists>row. header_try txt = Inr (Fmt_1_0, row)) =
     (strip (first_field txt) \<noteq> ''TDI Format 1.5'' \<and> strip (first_field txt) = ''TDI Format=Text 1.0'')"
  proof (cases "txt = []")
    case True
    then show ?thesis by (simp add: header_try_def reader_next_def first_field_def strip_Nil)
  next
    case ne: False
    show ?thesis
    proof (cases "?line = []")
      case True
      with ne show ?thesis
        by (simp add: header_try_def reader_next_def first_field_def strip_Nil csv_row_def)
    next
      case False
      from csv_row_first[OF False] obtain fs where
        "csv_row ?line = first_field txt # fs" by (auto simp: first_field_def)
      with ne show ?thesis by (simp add: header_try_def reader_next_def)
    qed
  qed
qed

lemma header_check_Inl: "header_check txt = Inl e \<Longrightarrow> e = StonerLoadError"
  by (auto simp: header_check_def split: sum.splits)

lemma header_check_Inr: "(header_check txt = Inr r) = (header_try txt = Inr r)"
  by (auto simp: header_check_def split: sum.splits)

text \<open>
  Claim C4, as amended.  The header check of the fallback parser succeeds exactly when
  the first tab-separated field of the first line, with the white space at its two
  ends removed, is \<^verbatim>\<open>TDI Format 1.5\<close> or \<^verbatim>\<open>TDI Format=Text 1.0\<close>; for every other
  file, the empty one included, it fails with \<^verbatim>\<open>StonerLoadError\<close>.
\<close>

theorem header_check_stripped_marker:
  "((\<exists>fmt row. header_check txt = Inr (fmt, row)) =
      (strip (first_field txt) \<in> {''TDI Format 1.5'', ''TDI Format=Text 1.0''}))
   \<and> ((header_check txt = Inl StonerLoadError) =
      (strip (first_field txt) \<notin> {''TDI Format 1.5'', ''TDI Format=Text 1.0''}))"
proof -
  have ok: "(\<exists>fmt row. header_check txt = Inr (fmt, row)) =
      (strip (first_field txt) \<in> {''TDI Format 1.5'', ''TDI Format=Text 1.0''})"
  proof -
    have "(\<exists>fmt row. header_check txt = Inr (fmt, row)) =
          ((\<exists>row. header_try txt = Inr (Fmt_1_5, row)) \<or> (\<exists>row. header_try txt = Inr (Fmt_1_0, row)))"
      unfolding header_check_Inr by (metis (full_types) tdi_fmt.exhaust)
    also have "\<dots> = (strip (first_field txt) \<in> {''TDI Format 1.5'', ''TDI Format=Text 1.0''})"
      unfolding header_try_markers by auto
    finally show ?thesis .
  qed
  have "(header_check txt = Inl StonerLoadError) = (\<not> (\<exists>fmt row. header_check txt = Inr (fmt, row)))"
  proof (cases "header_check txt")
    case (Inl e)
    with header_check_Inl[of "txt" e] show ?thesis by simp
  next
    case (Inr r)
    then show ?thesis by (cases r) simp
  qed
  with ok show ?thesis by simp
qed

theorem header_check_stripped_marker_witness:
  "header_check ('' TDI Format=Text 1.0'' @ [CHR 0x09] @ ''Field'' @ [CHR 0x0A] @ ''x'')
     = Inr (Fmt_1_0, ['' TDI Format=Text 1.0'', ''Field''])
   \<and> header_check ''Not TDI'' = Inl StonerLoadError"
  using header_check_stripped_marker[of "'' TDI Format=Text 1.0'' @ [CHR 0x09] @ ''Field'' @ [CHR 0x0A] @ ''x''"]
    header_check_stripped_marker[of "''Not TDI''"]
  by (simp add: header_check_def header_try_def reader_next_def csv_row_def is_newline_def
      first_field_def strip_def isspace_def)


text \<open>
  Claim C4 as the specification words it asks for the field to equal the marker.  The
  code compares \<^verbatim>\<open>row[0].strip()\<close>: a first field with a trailing space passes the
  check although it is not the marker.
\<close>

theorem header_check_exact_marker_counterexample:
  "header_check ''TDI Format 1.5 '' = Inr (Fmt_1_5, [''TDI Format 1.5 ''])
   \<and> first_field ''TDI Format 1.5 '' \<notin> {''TDI Format 1.5'', ''TDI Format=Text 1.0''}"
  by (simp add: header_check_def header_try_def reader_next_def csv_row_def is_newline_def
      first_field_def strip_def isspace_def)

section \<open>Properties of the auto-detecting load\<close>

text \<open>
  Handlers that are passed over only add their names to the list of attempts; the
  loop then behaves as it does on the remaining handlers.
\<close>

lemma auto_load_loop_passed_over:
  assumes "\<forall>p \<in> set pre. passed_over mt f p"
  shows "auto_load_loop mt f known self (pre @ rest) =
           (fst (auto_load_loop mt f known self rest),
            attempted mt pre @ snd (auto_load_loop mt f known self rest))"
  using assms
proof (induction pre)
  case Nil
  then show ?case by (simp add: attempted_def)
next
  case (Cons p pre)
  then have IH: "auto_load_loop mt f known self (pre @ rest) =
           (fst (auto_load_loop mt f known self rest),
            attempted mt pre @ snd (auto_load_loop mt f known self rest))"
    by simp
  from Cons.prems have p: "passed_over mt f p" by simp
  show ?case
  proof (cases "mime_skip mt p")
    case True
    with IH show ?thesis by (simp add: attempted_def)
  next
    case False
    with p have "cls_load p f = Inl StonerLoadError \<or> cls_load p f = Inl UnicodeDecodeError"
      by (simp add: passed_over_def)
    with False IH show ?thesis by (auto simp: attempted_def)
  qed
qed

lemma auto_load_loop_raise:
  assumes "\<not> mime_skip mt cls" and "cls_load cls f = Inl e"
    and "e \<noteq> StonerLoadError" and "e \<noteq> UnicodeDecodeError"
  shows "auto_load_loop mt f known self (cls # post) = (Inl e, [cls_name cls])"
  using assms by simp

lemma auto_load_loop_continue:
  assumes "\<not> mime_skip mt cls" and "cls_load cls f = Inl e"
    and "e = StonerLoadError \<or> e = UnicodeDecodeError"
  shows "auto_load_loop mt f known self (cls # post) =
           (fst (auto_load_loop mt f known self post),
            cls_name cls # snd (auto_load_loop mt f known self post))"
  using assms by (auto simp: case_prod_unfold Let_def)



text \<open>
  Claim C1, as amended.  In an auto-detecting load of an existing file, take a handler
  that the loop reaches (every handler before it has the wrong mime type or raised
  \<^verbatim>\<open>StonerLoadError\<close> or \<^verbatim>\<open>UnicodeDecodeError\<close>) and whose parse routine raises an
  exception \<open>e\<close>.  If \<open>e\<close> is \<^verbatim>\<open>StonerLoadError\<close> or \<^verbatim>\<open>UnicodeDecodeError\<close>, the load
  moves on: its result is that of the loop over the handlers that follow.  If \<open>e\<close> is
  any other exception, it is not caught: the load ends with \<open>e\<close> and no later handler
  is tried.
\<close>

theorem load_parse_exceptions:
  assumes "path_exists env fname"
    and "subclasses env = pre @ cls # post"
    and "\<forall>p \<in> set pre. passed_over (mimetype_of env fname) fname p"
    and "\<not> mime_skip (mimetype_of env fname) cls"
    and "cls_load cls fname = Inl e"
  shows "(if e = StonerLoadError \<or> e = UnicodeDecodeError
          then load env self fname =
                 (fst (auto_load_loop (mimetype_of env fname) fname (map cls_name (subclasses env))
                         (self\<lparr>filename := Some fname\<rparr>) post),
                  attempted (mimetype_of env fname) pre @ cls_name cls #
                    snd (auto_load_loop (mimetype_of env fname) fname (map cls_name (subclasses env))
                         (self\<lparr>filename := Some fname\<rparr>) post))
          else load env self fname =
                 (Inl e, attempted (mimetype_of env fname) pre @ [cls_name cls]))"
proof -
  let ?mt = "mimetype_of env fname" and ?names = "map cls_name (subclasses env)"
  let ?self = "self\<lparr>filename := Some fname\<rparr>"
  have ld: "load env self fname = auto_load_loop ?mt fname ?names ?self (pre @ cls # post)"
    using assms(1,2) by (simp add: load_def Let_def)
  note pre = auto_load_loop_passed_over[OF assms(3), of ?names ?self "cls # post"]
  show ?thesis
  proof (cases "e = StonerLoadError \<or> e = UnicodeDecodeError")
    case True
    from auto_load_loop_continue[OF assms(4,5) True, of ?names ?self post] pre ld True
    show ?thesis by simp
  next
    case False
    then have "e \<noteq> StonerLoadError" "e \<noteq> UnicodeDecodeError" by simp_all
    from auto_load_loop_raise[OF assms(4,5) this, of ?names ?self post] pre ld False
    show ?thesis by simp
  qed
qed


theorem load_parse_exceptions_witness:
  "load (example_env [raising_handler ''A'' StonerLoadError, raising_handler ''B'' UnicodeDecodeError,
                      raising_handler ''C'' ValueError, loading_handler ''D''])
        (new_datafile ''DataFile'') ''x.dat''
     = (Inl ValueError, [''A'', ''B'', ''C''])
   \<and> fst (load (example_env [raising_handler ''A'' StonerLoadError, loading_handler ''D''])
        (new_datafile ''DataFile'') ''x.dat'')
     = fst (auto_load_loop None ''x.dat'' [''A'', ''D'']
              ((new_datafile ''DataFile'')\<lparr>filename := Some ''x.dat''\<rparr>) [loading_handler ''D''])"
proof -
  let ?A = "raising_handler ''A'' StonerLoadError" and ?B = "raising_handler ''B'' UnicodeDecodeError"
  let ?C = "raising_handler ''C'' ValueError" and ?D = "loading_handler ''D''"
  let ?env = "example_env [?A, ?B, ?C, ?D]" and ?env2 = "example_env [?A, ?D]"
  have mt: "mimetype_of ?env ''x.dat'' = None" "mimetype_of ?env2 ''x.dat'' = None"
    by (simp_all add: mimetype_of_def example_env_def)
  have p1: "path_exists ?env ''x.dat''" by (simp add: example_env_def)
  have p2: "subclasses ?env = [?A, ?B] @ ?C # [?D]" by (simp add: example_env_def)
  have p3: "\<forall>p \<in> set [?A, ?B]. passed_over (mimetype_of ?env ''x.dat'') ''x.dat'' p"
    by (simp add: passed_over_def raising_handler_def)
  have p4: "\<not> mime_skip (mimetype_of ?env ''x.dat'') ?C" by (simp add: mimetype_of_def example_env_def mime_skip_def)
  have p5: "cls_load ?C ''x.dat'' = Inl ValueError" by (simp add: raising_handler_def)
  have q1: "path_exists ?env2 ''x.dat''" by (simp add: example_env_def)
  have q2: "subclasses ?env2 = [] @ ?A # [?D]" by (simp add: example_env_def)
  have q3: "\<forall>p \<in> set []. passed_over (mimetype_of ?env2 ''x.dat'') ''x.dat'' p" by simp
  have q4: "\<not> mime_skip (mimetype_of ?env2 ''x.dat'') ?A" by (simp add: mimetype_of_def example_env_def mime_skip_def)
  have q5: "cls_load ?A ''x.dat'' = Inl StonerLoadError" by (simp add: raising_handler_def)
  from load_parse_exceptions[OF p1 p2 p3 p4 p5, of "new_datafile ''DataFile''"]
  have a: "load ?env (new_datafile ''DataFile'') ''x.dat'' = (Inl ValueError, [''A'', ''B'', ''C''])"
    by (simp add: mimetype_of_def example_env_def attempted_def mime_skip_def raising_handler_def)
  from load_parse_exceptions[OF q1 q2 q3 q4 q5, of "new_datafile ''DataFile''"]
  have b: "fst (load ?env2 (new_datafile ''DataFile'') ''x.dat'')
     = fst (auto_load_loop None ''x.dat'' [''A'', ''D'']
              ((new_datafile ''DataFile'')\<lparr>filename := Some ''x.dat''\<rparr>) [?D])"
    by (simp add: mimetype_of_def example_env_def attempted_def mime_skip_def raising_handler_def loading_handler_def)
  from a b show ?thesis by simp
qed


text \<open>
  Claim C1 as the specification words it lets only \<^verbatim>\<open>LoadError\<close> lead to the next
  candidate.  The loop has a second handler, \<^verbatim>\<open>except UnicodeDecodeError: ... continue\<close>:
  a parse attempt that raises \<^verbatim>\<open>UnicodeDecodeError\<close>, which is not \<^verbatim>\<open>LoadError\<close>, does
  not end the load; the next handler is tried and its result is the result of the load.
\<close>

theorem load_unicode_error_counterexample:
  "cls_load (raising_handler ''A'' UnicodeDecodeError) ''x.dat'' = Inl UnicodeDecodeError
   \<and> UnicodeDecodeError \<noteq> StonerLoadError
   \<and> load (example_env [raising_handler ''A'' UnicodeDecodeError, loading_handler ''B''])
        (new_datafile ''DataFile'') ''x.dat''
     = (Inr (copy_into (setitem_metadata ''Loaded as'' (MdString ''B'')
                         (loaded_example\<lparr>filename := Some ''x.dat''\<rparr>))
                       ((new_datafile ''DataFile'')\<lparr>filename := Some ''x.dat''\<rparr>)),
        [''A'', ''B''])"
  by (simp add: load_def example_env_def mimetype_of_def mime_skip_def raising_handler_def
      loading_handler_def)



section \<open>Properties of deleting columns by a list of booleans\<close>

text \<open>
  With a selector as long as the row, \<^verbatim>\<open>del_column\<close> keeps the headers and the
  roles at the positions where the selector is \<^emph>\<open>false\<close>.
\<close>

lemma bool_index_inverted:
  "length col = length xs \<Longrightarrow>
     bool_index xs (map Not col) = Inr (map fst (filter (\<lambda>p. \<not> snd p) (zip xs col)))"
proof (induction xs arbitrary: col)
  case Nil
  then show ?case by (simp add: bool_index_def)
next
  case (Cons x xs)
  then obtain b bs where col: "col = b # bs" and len: "length bs = length xs"
    by (cases col) auto
  from Cons.IH[OF len] len show ?case
    by (simp add: col bool_index_def)
qed

lemma del_column_bools_headers:
  assumes "del_column_bools col d = Inr d'"
  shows "column_headers d' = map fst (filter (\<lambda>p. \<not> snd p) (zip (column_headers d) col))
       \<and> setas d' = map fst (filter (\<lambda>p. \<not> snd p) (zip (setas d) col))"
proof -
  from assms have l1: "length col = length (setas d)" and l2: "length col = length (column_headers d)"
    by (auto simp: del_column_bools_def Let_def bool_index_def split: sum.splits if_splits)
  from assms show ?thesis
    unfolding del_column_bools_def Let_def
    by (auto simp: bool_index_inverted[OF l1] bool_index_inverted[OF l2] split: sum.splits)
qed

text \<open>
  Claim C7 says that \<^verbatim>\<open>del_column\<close> with a list of booleans deletes the columns
  where the list is false and keeps those where it is true, as the docstring of the
  method does.  The code inverts the list before it indexes with it: on the file with
  the columns \<open>A\<close>, \<open>B\<close>, \<open>C\<close> and the roles \<open>x\<close>, \<open>y\<close>, none, the selector
  \<open>[True, False, True]\<close> leaves column \<open>B\<close> with role \<open>y\<close>, where the claim keeps
  \<open>A\<close> and \<open>C\<close> with roles \<open>x\<close> and none.
\<close>

theorem del_column_bools_deletes_true_columns:
  "del_column_bools [True, False, True] three_columns =
     Inr (three_columns\<lparr> data := [[2], [5]], mask := [[False], [True]], setas := ''y'',
                         column_headers := [''B''] \<rparr>)
   \<and> kept_where_true (column_headers three_columns) [True, False, True] = [''A'', ''C'']
   \<and> kept_where_true (setas three_columns) [True, False, True] = ''x.''"
  by (simp add: del_column_bools_def three_columns_def new_datafile_def blank_datafile_def setitem_metadata_def bool_index_def
      kept_where_true_def)

section \<open>Properties of the stack of masks\<close>








section \<open>Properties of the construction from a dictionary\<close>

text \<open>
  The stacked matrix has one row for each position of the arrays, and its columns
  are the arrays: a dictionary of one-dimensional arrays of one length becomes the
  data, its values the columns in the order of the keys, its keys the headers.
\<close>

lemma length_column_rows: "length (column_rows n cols) = n"
  by (induction n arbitrary: cols) simp_all

lemma column_rows_nth:
  "i < n \<Longrightarrow> \<forall>c \<in> set cols. n \<le> length c \<Longrightarrow>
     column_rows n cols ! i = map (\<lambda>c. c ! i) cols"
proof (induction n arbitrary: cols i)
  case 0
  then show ?case by simp
next
  case (Suc n)
  show ?case
  proof (cases i)
    case 0
    have "map hd cols = map (\<lambda>c. c ! 0) cols"
    proof (intro map_cong refl)
      fix c assume "c \<in> set cols"
      with Suc.prems(2) have "c \<noteq> []" by auto
      then show "hd c = c ! 0" by (rule hd_conv_nth)
    qed
    with 0 show ?thesis by simp
  next
    case (Suc i')
    with Suc.prems have i': "i' < n" by simp
    have tl: "\<forall>c \<in> set (map tl cols). n \<le> length c" using Suc.prems(2) by auto
    have "map (\<lambda>c. c ! i') (map tl cols) = map (\<lambda>c. c ! Suc i') cols"
      unfolding map_map
    proof (intro map_cong refl)
      fix c assume "c \<in> set cols"
      with Suc.prems(2) i' have "i' < length (tl c)" by auto
      then show "(((\<lambda>c. c ! i') \<circ> tl) c) = c ! Suc i'" by (simp add: nth_tl)
    qed
    with Suc.IH[OF i' tl] Suc show ?thesis by simp
  qed
qed


text \<open>
  A dictionary whose values are Python lists and not arrays fails the test
  \<^verbatim>\<open>all_type(arg.values(), np.ndarray)\<close> and becomes the metadata.
\<close>

lemma DataFile_from_dict_of_lists:
  "DataFile_from_dict ''DataFile'' [(''x'', PyList [1, 2, 3 :: int]), (''y'', PyList [4, 5, 6])]
     = Inr (blank_datafile
              \<lparr> metadata := [(''x'', MdList [1, 2, 3]), (''y'', MdList [4, 5, 6]),
                             (''Stoner.class'', MdString ''DataFile'')] \<rparr>)"
  by (simp add: DataFile_from_dict_def init_single_dict_def all_type_def setitem_metadata_def
      blank_datafile_def)


section \<open>Properties of the image stack\<close>

text \<open>
  An insertion that returns leaves the array with one page more than there are
  names: the array is first resized to the new number of names and then receives a
  further page.
\<close>

lemma length_copy_pages:
  "pag \<le> length old \<Longrightarrow> pag \<le> length new \<Longrightarrow> length (copy_pages row col pag old new) = length new"
  by (simp add: copy_pages_def)

lemma resize_stack_pages:
  "length (pages (stack (resize_stack (nr, nc, np) dt s))) = np"
proof (cases "buffer_shape (stack s) = (nr, nc, np)")
  case True
  then show ?thesis by (simp add: resize_stack_def Let_def buffer_shape_def)
next
  case False
  then show ?thesis
    by (simp add: resize_stack_def Let_def length_copy_pages zeros3_def)
qed

lemma resize_stack_names: "names (resize_stack sz dt s) = names s"
  by (cases sz) (simp add: resize_stack_def Let_def split: prod.splits)

lemma inserter_extra_page:
  assumes "inserter ix name val s = (None, s')"
  shows "length (pages (stack s')) = Suc (length (names s'))"
proof -
  let ?s1 = "s\<lparr> names := list_insert ix name (names s),
                  stack_metadata := AList.update name (image_metadata val) (stack_metadata s) \<rparr>"
  from assms obtain p where p: "insert_index ix (length (sizes ?s1)) = Some p"
    by (auto simp: inserter_def Let_def split: option.splits)
  let ?s2 = "?s1\<lparr>sizes := insert_at p (image_shape val) (sizes ?s1)\<rparr>"
  let ?s3 = "resize_stack (fst (max_size ?s2), snd (max_size ?s2), length (names ?s2))
               (if length (names ?s2) = 1 then Some (image_dtype val) else None) ?s2"
  have n3: "length (pages (stack ?s3)) = length (names ?s2)" by (rule resize_stack_pages)
  have nm3: "names ?s3 = names ?s2" by (rule resize_stack_names)
  from assms p obtain q where q: "insert_index ix (length (pages (stack ?s3))) = Some q"
    by (auto simp: inserter_def Let_def split: option.splits)
  then have qle: "q \<le> length (pages (stack ?s3))"
    by (auto simp: insert_index_def split: if_splits)
  let ?s4 = "?s3\<lparr>stack := (stack ?s3)
                 \<lparr>pages := insert_at q (zeros2 (fst (max_size ?s3)) (snd (max_size ?s3)))
                             (pages (stack ?s3))\<rparr>\<rparr>"
  from assms p q obtain w where w: "norm_index ix (length (pages (stack ?s4))) = Some w"
    and s': "s' = ?s4\<lparr>stack := write_page w (image_data val) (stack ?s4)\<rparr>"
    by (auto simp: inserter_def Let_def split: option.splits)
  have "length (pages (stack s')) = Suc (length (pages (stack ?s3)))"
    unfolding s' using qle by (simp add: write_page_def insert_at_def)
  moreover have "names s' = names ?s2" unfolding s' using nm3 by simp
  ultimately show ?thesis using n3 by simp
qed

text \<open>A deletion by name never returns: its last line raises.\<close>

lemma deleter_by_name_raises: "fst (deleter rx (KName n) s) \<noteq> None"
  by (simp add: deleter_def Let_def split: sum.splits option.splits)

text \<open>
  Claim C6 says that the names, the pages of the array and the recorded sizes stay
  equal in number through every set, insert and delete.  The code does not keep them
  so.  The empty stack has one page and no name.  Setting the new page \<open>a\<close> on it
  returns with one name, one size and two pages.  Deleting \<open>a\<close> by its name from
  that stack removes the name, its metadata and a page and then raises
  \<^verbatim>\<open>IndexError\<close>, with the size of the deleted page still recorded: no name, one
  size.
\<close>

theorem imagestack_lock_step_violated:
  "\<not> lock_step (empty_stack :: (int, unit) imagestack)
   \<and> setter no_rx untitled (KName ''a'') one_pixel False empty_stack =
       (None, \<lparr> stack = \<lparr> buf_rows = 1, buf_cols = 1, pages = [[[5]], [[0]]], dtype = Int32 \<rparr>,
                 stack_metadata = [(''a'', ())], names = [''a''], sizes = [(1, 1)] \<rparr>)
   \<and> \<not> lock_step \<lparr> stack = \<lparr> buf_rows = 1, buf_cols = 1, pages = [[[5 :: int]], [[0]]], dtype = Int32 \<rparr>,
                    stack_metadata = [(''a'', ())], names = [''a''], sizes = [(1, 1)] \<rparr>
   \<and> deleter no_rx (KName ''a'')
         \<lparr> stack = \<lparr> buf_rows = 1, buf_cols = 1, pages = [[[5 :: int]], [[0]]], dtype = Int32 \<rparr>,
           stack_metadata = [(''a'', ())], names = [''a''], sizes = [(1, 1)] \<rparr> =
       (Some IndexError,
        \<lparr> stack = \<lparr> buf_rows = 1, buf_cols = 1, pages = [[[0]]], dtype = Int32 \<rparr>,
          stack_metadata = [], names = [], sizes = [(1, 1)] \<rparr>)"
proof (intro conjI)
  show "\<not> lock_step (empty_stack :: (int, unit) imagestack)"
    by (simp add: lock_step_def empty_stack_def)
  show "setter no_rx untitled (KName ''a'') one_pixel False empty_stack =
       (None, \<lparr> stack = \<lparr> buf_rows = 1, buf_cols = 1, pages = [[[5]], [[0]]], dtype = Int32 \<rparr>,
                 stack_metadata = [(''a'', ())], names = [''a''], sizes = [(1, 1)] \<rparr>)"
    by code_simp
  show "\<not> lock_step \<lparr> stack = \<lparr> buf_rows = 1, buf_cols = 1, pages = [[[5 :: int]], [[0]]], dtype = Int32 \<rparr>,
                    stack_metadata = [(''a'', ())], names = [''a''], sizes = [(1, 1)] \<rparr>"
    by (simp add: lock_step_def)
  show "deleter no_rx (KName ''a'')
         \<lparr> stack = \<lparr> buf_rows = 1, buf_cols = 1, pages = [[[5 :: int]], [[0]]], dtype = Int32 \<rparr>,
           stack_metadata = [(''a'', ())], names = [''a''], sizes = [(1, 1)] \<rparr> =
       (Some IndexError,
        \<lparr> stack = \<lparr> buf_rows = 1, buf_cols = 1, pages = [[[0]]], dtype = Int32 \<rparr>,
          stack_metadata = [], names = [], sizes = [(1, 1)] \<rparr>)"
    by code_simp
qed

section \<open>Properties of the ratio of two stacks\<close>









section \<open>Properties of the deep copy\<close>










end
